theory Spec2Isabelle
  imports Main "HOL-Library.Word"
begin

unbundle bit_operations_syntax

section \<open>Data model (models/transaction.go)\<close>

text \<open>
  Go's \<^verbatim>\<open>int64\<close> and \<^verbatim>\<open>float64\<close> are 64-bit values. A \<^verbatim>\<open>float64\<close> is kept as its
  IEEE 754 bit pattern; the only operation the reconciliation code applies to it is \<^verbatim>\<open>==\<close>,
  which is defined on the bit pattern below. A Go \<^verbatim>\<open>string\<close> is a byte sequence.
\<close>

type_synonym int64 = "64 word"
type_synonym float64 = "64 word"

text \<open>\<^verbatim>\<open>sql.NullInt64\<close> and \<^verbatim>\<open>sql.NullString\<close>: a value and its validity flag.\<close>

record NullInt64 =
  Int64 :: int64
  Valid :: bool

record NullString =
  Str :: string
  StrValid :: bool

text \<open>
  \<^verbatim>\<open>models.Transaction\<close>. The fields \<^verbatim>\<open>TransactionTs\<close> and \<^verbatim>\<open>Notes\<close> are read by no
  function of the reconciliation and are left out.
\<close>

record Transaction =
  TransactionID :: int64
  FromAccountID :: NullInt64
  ToAccountID :: NullInt64
  TransactionType :: string
  Amount :: float64
  Description :: NullString

record ExternalTransaction =
  ExternalID :: string
  ExtAmount :: float64
  Type :: string
  Reference :: string

text \<open>
  A Go slice is either \<^verbatim>\<open>nil\<close> or a (possibly empty) sequence; \<^verbatim>\<open>len\<close> and \<^verbatim>\<open>range\<close> treat
  \<^verbatim>\<open>nil\<close> as empty, \<^verbatim>\<open>append\<close> to \<^verbatim>\<open>nil\<close> allocates.
\<close>

datatype 'a slice = NilSlice | Slice "'a list"

fun elems :: "'a slice \<Rightarrow> 'a list" where
  "elems NilSlice = []"
| "elems (Slice xs) = xs"

definition append_slice :: "'a slice \<Rightarrow> 'a \<Rightarrow> 'a slice" where
  "append_slice s x = Slice (elems s @ [x])"

section \<open>Standard library\<close>

text \<open>
  The parts of Go's standard library whose result the code only passes on are parameters of
  the model: the Unicode path of \<^verbatim>\<open>strings.ToUpper\<close> (taken for a string with a byte above
  127), \<^verbatim>\<open>strings.TrimSpace\<close>, \<^verbatim>\<open>strconv.ParseFloat\<close> (\<open>None\<close>: the error return) and the
  \<^verbatim>\<open>%d\<close> and \<^verbatim>\<open>%.2f\<close> verbs of \<^verbatim>\<open>fmt.Sprintf\<close>.
\<close>

record stdlib =
  unicode_ToUpper :: "string \<Rightarrow> string"
  TrimSpace :: "string \<Rightarrow> string"
  ParseFloat :: "string \<Rightarrow> float64 option"
  fmt_d :: "int64 \<Rightarrow> string"
  fmt_2f :: "float64 \<Rightarrow> string"

text \<open>
  \<^verbatim>\<open>strings.ToUpper\<close>: on a string of ASCII bytes only, each of \<^verbatim>\<open>a\<close>..\<^verbatim>\<open>z\<close> is replaced by
  its upper-case letter and every other byte is kept.
\<close>

definition isASCII :: "string \<Rightarrow> bool" where
  "isASCII s = list_all (\<lambda>c. (of_char c :: nat) < 128) s"

definition upper_byte :: "char \<Rightarrow> char" where
  "upper_byte c =
     (if 97 \<le> (of_char c :: nat) \<and> (of_char c :: nat) \<le> 122
      then char_of ((of_char c :: nat) - 32) else c)"

definition ToUpper :: "stdlib \<Rightarrow> string \<Rightarrow> string" where
  "ToUpper L s = (if isASCII s then map upper_byte s else unicode_ToUpper L s)"

text \<open>
  \<^verbatim>\<open>==\<close> on \<^verbatim>\<open>float64\<close> (IEEE 754): a NaN is equal to nothing, the two zeros are equal to each
  other, and otherwise two values are equal when their bit patterns are.
\<close>

definition isNaN :: "float64 \<Rightarrow> bool" where
  "isNaN w = (w AND 0x7FF0000000000000 = 0x7FF0000000000000 \<and> w AND 0x000FFFFFFFFFFFFF \<noteq> 0)"

definition isZero :: "float64 \<Rightarrow> bool" where
  "isZero w = (w AND 0x7FFFFFFFFFFFFFFF = 0)"

definition float64_eq :: "float64 \<Rightarrow> float64 \<Rightarrow> bool" where
  "float64_eq a b = (\<not> isNaN a \<and> \<not> isNaN b \<and> (a = b \<or> (isZero a \<and> isZero b)))"

text \<open>
  A \<^verbatim>\<open>map[K]bool\<close>: reading a key that was never written gives \<^verbatim>\<open>false\<close>.
\<close>

definition lookup :: "('k \<rightharpoonup> bool) \<Rightarrow> 'k \<Rightarrow> bool" where
  "lookup m k = (case m k of None \<Rightarrow> False | Some b \<Rightarrow> b)"

section \<open>Type normalizer\<close>

text \<open>\<^verbatim>\<open>normalizeDBTransactionType\<close> of reconciliation.go.\<close>

definition normalizeDBTransactionType :: "stdlib \<Rightarrow> string \<Rightarrow> NullInt64 \<Rightarrow> NullInt64 \<Rightarrow> string" where
  "normalizeDBTransactionType L dbType0 fromID toID =
     (let dbType = ToUpper L dbType0 in
      if dbType = ''DEPOSIT'' then ''DEPOSIT''
      else if dbType = ''WITHDRAWAL'' then ''WITHDRAWAL''
      else if dbType = ''TRANSFER'' then
        (if Valid fromID \<and> \<not> Valid toID then ''TRANSFER_OUT''
         else if \<not> Valid fromID \<and> Valid toID then ''TRANSFER_IN''
         else if Valid fromID \<and> Valid toID then ''INTERNAL_TRANSFER''
         else dbType)
      else dbType)"

text \<open>The method \<^verbatim>\<open>normalizeDBTransactionType\<close> of the reconciliation service.\<close>

definition normalizeDBTransactionType_svc :: "stdlib \<Rightarrow> string \<Rightarrow> NullInt64 \<Rightarrow> NullInt64 \<Rightarrow> string" where
  "normalizeDBTransactionType_svc L dbType0 fromID toID =
     (let dbType = ToUpper L dbType0 in
      if dbType = ''DEPOSIT'' then ''DEPOSIT''
      else if dbType = ''WITHDRAWAL'' then ''WITHDRAWAL''
      else if dbType = ''TRANSFER'' then
        (if Valid fromID \<and> \<not> Valid toID then ''TRANSFER_OUT''
         else if \<not> Valid fromID \<and> Valid toID then ''TRANSFER_IN''
         else if Valid fromID \<and> Valid toID then ''INTERNAL_TRANSFER''
         else dbType)
      else dbType)"


section \<open>Matcher\<close>

text \<open>
  The state of the matching loop. The source appends to \<^verbatim>\<open>foundInBoth\<close> and
  \<^verbatim>\<open>mismatchedAmounts\<close> the line formatted from the pair; the model keeps the pair itself and
  formats the line when the report is printed (\<open>line_match\<close>, \<open>line_mismatch\<close>), so that the
  buckets can be spoken about.
\<close>

record match_state =
  processedDBTx :: "int64 \<rightharpoonup> bool"
  processedCSVTx :: "string \<rightharpoonup> bool"
  foundInBoth :: "(Transaction \<times> ExternalTransaction) list"
  mismatchedAmounts :: "(Transaction \<times> ExternalTransaction) list"

definition init_state :: match_state where
  "init_state = \<lparr>processedDBTx = Map.empty, processedCSVTx = Map.empty,
                 foundInBoth = [], mismatchedAmounts = []\<rparr>"

record buckets =
  matched :: "(Transaction \<times> ExternalTransaction) list"
  mismatchedAmount :: "(Transaction \<times> ExternalTransaction) list"
  onlyInDB :: "Transaction list"
  onlyInCSV :: "ExternalTransaction list"

subsection \<open>The function reconcileTransactions (reconciliation.go)\<close>

text \<open>
  First inner loop: the first record of \<^verbatim>\<open>csvTxs\<close>, among those whose id is not marked in
  \<^verbatim>\<open>processedCSVTx\<close>, with the normalized type and the amount of \<^verbatim>\<open>dbTx\<close>. The loop writes
  nothing before its \<^verbatim>\<open>break\<close>, so it is a search that returns the record it stops at.
\<close>

fun scan_exact :: "stdlib \<Rightarrow> Transaction \<Rightarrow> (string \<rightharpoonup> bool) \<Rightarrow> ExternalTransaction list
    \<Rightarrow> ExternalTransaction option" where
  "scan_exact L dbTx pcsv [] = None"
| "scan_exact L dbTx pcsv (csvTx # rest) =
     (if lookup pcsv (ExternalID csvTx) then scan_exact L dbTx pcsv rest
      else if normalizeDBTransactionType L (TransactionType dbTx) (FromAccountID dbTx) (ToAccountID dbTx)
                = Type csvTx \<and> float64_eq (Amount dbTx) (ExtAmount csvTx)
      then Some csvTx
      else scan_exact L dbTx pcsv rest)"

text \<open>Second inner loop: the same search on the type alone.\<close>

fun scan_type :: "stdlib \<Rightarrow> Transaction \<Rightarrow> (string \<rightharpoonup> bool) \<Rightarrow> ExternalTransaction list
    \<Rightarrow> ExternalTransaction option" where
  "scan_type L dbTx pcsv [] = None"
| "scan_type L dbTx pcsv (csvTx # rest) =
     (if lookup pcsv (ExternalID csvTx) then scan_type L dbTx pcsv rest
      else if normalizeDBTransactionType L (TransactionType dbTx) (FromAccountID dbTx) (ToAccountID dbTx)
                = Type csvTx
      then Some csvTx
      else scan_type L dbTx pcsv rest)"

text \<open>The body of the outer loop, for one \<^verbatim>\<open>dbTx\<close>.\<close>

definition match_step :: "stdlib \<Rightarrow> ExternalTransaction list \<Rightarrow> match_state \<Rightarrow> Transaction
    \<Rightarrow> match_state" where
  "match_step L csvTxs s dbTx =
     (if lookup (processedDBTx s) (TransactionID dbTx) then s
      else case scan_exact L dbTx (processedCSVTx s) csvTxs of
        Some csvTx \<Rightarrow>
          s\<lparr>foundInBoth := foundInBoth s @ [(dbTx, csvTx)],
            processedDBTx := (processedDBTx s)(TransactionID dbTx \<mapsto> True),
            processedCSVTx := (processedCSVTx s)(ExternalID csvTx \<mapsto> True)\<rparr>
      | None \<Rightarrow>
          (case scan_type L dbTx (processedCSVTx s) csvTxs of
             Some csvTx \<Rightarrow>
               s\<lparr>mismatchedAmounts := mismatchedAmounts s @ [(dbTx, csvTx)],
                 processedDBTx := (processedDBTx s)(TransactionID dbTx \<mapsto> True),
                 processedCSVTx := (processedCSVTx s)(ExternalID csvTx \<mapsto> True)\<rparr>
           | None \<Rightarrow> s))"

fun match_loop :: "stdlib \<Rightarrow> ExternalTransaction list \<Rightarrow> match_state \<Rightarrow> Transaction list
    \<Rightarrow> match_state" where
  "match_loop L csvTxs s [] = s"
| "match_loop L csvTxs s (dbTx # rest) =
     match_loop L csvTxs (match_step L csvTxs s dbTx) rest"

text \<open>The two loops after the matching, and the four buckets they leave.\<close>

definition classify :: "stdlib \<Rightarrow> Transaction list \<Rightarrow> ExternalTransaction list \<Rightarrow> buckets" where
  "classify L dbTxs csvTxs =
     (let s = match_loop L csvTxs init_state dbTxs in
      \<lparr>matched = foundInBoth s,
       mismatchedAmount = mismatchedAmounts s,
       onlyInDB = filter (\<lambda>dbTx. \<not> lookup (processedDBTx s) (TransactionID dbTx)) dbTxs,
       onlyInCSV = filter (\<lambda>csvTx. \<not> lookup (processedCSVTx s) (ExternalID csvTx)) csvTxs\<rparr>)"

text \<open>The lines that \<^verbatim>\<open>fmt.Sprintf\<close> formats for the entries of the four buckets.\<close>

definition line_match :: "stdlib \<Rightarrow> Transaction \<times> ExternalTransaction \<Rightarrow> string" where
  "line_match L p =
     (case p of (dbTx, csvTx) \<Rightarrow>
        ''  MATCH: DB ID '' @ fmt_d L (TransactionID dbTx) @ '' ('' @ fmt_2f L (Amount dbTx) @ '' ''
        @ normalizeDBTransactionType L (TransactionType dbTx) (FromAccountID dbTx) (ToAccountID dbTx)
        @ '') with CSV ID '' @ ExternalID csvTx @ '' ('' @ fmt_2f L (ExtAmount csvTx) @ '' ''
        @ Type csvTx @ '', Ref: '' @ Reference csvTx @ '')'')"

definition line_mismatch :: "stdlib \<Rightarrow> Transaction \<times> ExternalTransaction \<Rightarrow> string" where
  "line_mismatch L p =
     (case p of (dbTx, csvTx) \<Rightarrow>
        ''  MISMATCH_AMOUNT: DB ID '' @ fmt_d L (TransactionID dbTx) @ '' ('' @ fmt_2f L (Amount dbTx)
        @ '' '' @ normalizeDBTransactionType L (TransactionType dbTx) (FromAccountID dbTx) (ToAccountID dbTx)
        @ '') vs CSV ID '' @ ExternalID csvTx @ '' ('' @ fmt_2f L (ExtAmount csvTx) @ '' ''
        @ Type csvTx @ '', Ref: '' @ Reference csvTx @ '')'')"

definition line_db :: "stdlib \<Rightarrow> Transaction \<Rightarrow> string" where
  "line_db L dbTx =
     ''  DB ID: '' @ fmt_d L (TransactionID dbTx) @ '', Type: '' @ TransactionType dbTx
     @ '', Amount: '' @ fmt_2f L (Amount dbTx) @ '', Desc: '' @ Str (Description dbTx)"

definition line_csv :: "stdlib \<Rightarrow> ExternalTransaction \<Rightarrow> string" where
  "line_csv L csvTx =
     ''  CSV ID: '' @ ExternalID csvTx @ '', Type: '' @ Type csvTx
     @ '', Amount: '' @ fmt_2f L (ExtAmount csvTx) @ '', Ref: '' @ Reference csvTx"

text \<open>
  The four sections of the report: each is its title and then its lines, or the line
  \<^verbatim>\<open>None\<close> when it has no entry. Each string is one call of \<^verbatim>\<open>fmt.Println\<close>.
\<close>

definition sections :: "stdlib \<Rightarrow> buckets \<Rightarrow> string list list" where
  "sections L b =
     (let foundInBoth = map (line_match L) (matched b);
          mismatchedAmounts = map (line_mismatch L) (mismatchedAmount b);
          onlyInDB = map (line_db L) (onlyInDB b);
          onlyInCSV = map (line_csv L) (onlyInCSV b)
      in
      [(CHR 0x0A # ''[Transactions Found in Both Systems (Exact Match on Type & Amount)]'')
         # (if length foundInBoth > 0 then foundInBoth else [''  None'']),
       (CHR 0x0A # ''[Potential Matches with Mismatched Amounts (Same Type)]'')
         # (if length mismatchedAmounts > 0 then mismatchedAmounts else [''  None'']),
       (CHR 0x0A # ''[Transactions Only in Database]'')
         # (if length onlyInDB > 0 then onlyInDB else [''  None'']),
       (CHR 0x0A # ''[Transactions Only in CSV File]'')
         # (if length onlyInCSV > 0 then onlyInCSV else [''  None''])])"

text \<open>What \<^verbatim>\<open>reconcileTransactions\<close> prints to the standard output.\<close>

definition reconcileTransactions :: "stdlib \<Rightarrow> Transaction list \<Rightarrow> ExternalTransaction list \<Rightarrow> string list" where
  "reconcileTransactions L dbTxs csvTxs =
     [CHR 0x0A # ''--- Reconciliation Report ---'']
     @ concat (sections L (classify L dbTxs csvTxs))
     @ [CHR 0x0A # ''--- End of Reconciliation Report ---'']"

subsection \<open>The method ReconcileTransactions of the reconciliation service\<close>

text \<open>
  First inner loop: the first record of \<^verbatim>\<open>csvTxs\<close>, among those whose id is not marked in
  \<^verbatim>\<open>processedCSVTx\<close>, with the normalized type and the amount of \<^verbatim>\<open>dbTx\<close>. The loop writes
  nothing before its \<^verbatim>\<open>break\<close>, so it is a search that returns the record it stops at.
\<close>

fun scan_exact_svc :: "stdlib \<Rightarrow> Transaction \<Rightarrow> (string \<rightharpoonup> bool) \<Rightarrow> ExternalTransaction list
    \<Rightarrow> ExternalTransaction option" where
  "scan_exact_svc L dbTx pcsv [] = None"
| "scan_exact_svc L dbTx pcsv (csvTx # rest) =
     (if lookup pcsv (ExternalID csvTx) then scan_exact_svc L dbTx pcsv rest
      else if normalizeDBTransactionType_svc L (TransactionType dbTx) (FromAccountID dbTx) (ToAccountID dbTx)
                = Type csvTx \<and> float64_eq (Amount dbTx) (ExtAmount csvTx)
      then Some csvTx
      else scan_exact_svc L dbTx pcsv rest)"

text \<open>Second inner loop: the same search on the type alone.\<close>

fun scan_type_svc :: "stdlib \<Rightarrow> Transaction \<Rightarrow> (string \<rightharpoonup> bool) \<Rightarrow> ExternalTransaction list
    \<Rightarrow> ExternalTransaction option" where
  "scan_type_svc L dbTx pcsv [] = None"
| "scan_type_svc L dbTx pcsv (csvTx # rest) =
     (if lookup pcsv (ExternalID csvTx) then scan_type_svc L dbTx pcsv rest
      else if normalizeDBTransactionType_svc L (TransactionType dbTx) (FromAccountID dbTx) (ToAccountID dbTx)
                = Type csvTx
      then Some csvTx
      else scan_type_svc L dbTx pcsv rest)"

text \<open>The body of the outer loop, for one \<^verbatim>\<open>dbTx\<close>.\<close>

definition match_step_svc :: "stdlib \<Rightarrow> ExternalTransaction list \<Rightarrow> match_state \<Rightarrow> Transaction
    \<Rightarrow> match_state" where
  "match_step_svc L csvTxs s dbTx =
     (if lookup (processedDBTx s) (TransactionID dbTx) then s
      else case scan_exact_svc L dbTx (processedCSVTx s) csvTxs of
        Some csvTx \<Rightarrow>
          s\<lparr>foundInBoth := foundInBoth s @ [(dbTx, csvTx)],
            processedDBTx := (processedDBTx s)(TransactionID dbTx \<mapsto> True),
            processedCSVTx := (processedCSVTx s)(ExternalID csvTx \<mapsto> True)\<rparr>
      | None \<Rightarrow>
          (case scan_type_svc L dbTx (processedCSVTx s) csvTxs of
             Some csvTx \<Rightarrow>
               s\<lparr>mismatchedAmounts := mismatchedAmounts s @ [(dbTx, csvTx)],
                 processedDBTx := (processedDBTx s)(TransactionID dbTx \<mapsto> True),
                 processedCSVTx := (processedCSVTx s)(ExternalID csvTx \<mapsto> True)\<rparr>
           | None \<Rightarrow> s))"

fun match_loop_svc :: "stdlib \<Rightarrow> ExternalTransaction list \<Rightarrow> match_state \<Rightarrow> Transaction list
    \<Rightarrow> match_state" where
  "match_loop_svc L csvTxs s [] = s"
| "match_loop_svc L csvTxs s (dbTx # rest) =
     match_loop_svc L csvTxs (match_step_svc L csvTxs s dbTx) rest"

text \<open>The two loops after the matching, and the four buckets they leave.\<close>

definition classify_svc :: "stdlib \<Rightarrow> Transaction list \<Rightarrow> ExternalTransaction list \<Rightarrow> buckets" where
  "classify_svc L dbTxs csvTxs =
     (let s = match_loop_svc L csvTxs init_state dbTxs in
      \<lparr>matched = foundInBoth s,
       mismatchedAmount = mismatchedAmounts s,
       onlyInDB = filter (\<lambda>dbTx. \<not> lookup (processedDBTx s) (TransactionID dbTx)) dbTxs,
       onlyInCSV = filter (\<lambda>csvTx. \<not> lookup (processedCSVTx s) (ExternalID csvTx)) csvTxs\<rparr>)"

text \<open>The lines that \<^verbatim>\<open>fmt.Sprintf\<close> formats for the entries of the four buckets.\<close>

definition line_match_svc :: "stdlib \<Rightarrow> Transaction \<times> ExternalTransaction \<Rightarrow> string" where
  "line_match_svc L p =
     (case p of (dbTx, csvTx) \<Rightarrow>
        ''  MATCH: DB ID '' @ fmt_d L (TransactionID dbTx) @ '' ('' @ fmt_2f L (Amount dbTx) @ '' ''
        @ normalizeDBTransactionType_svc L (TransactionType dbTx) (FromAccountID dbTx) (ToAccountID dbTx)
        @ '') with CSV ID '' @ ExternalID csvTx @ '' ('' @ fmt_2f L (ExtAmount csvTx) @ '' ''
        @ Type csvTx @ '', Ref: '' @ Reference csvTx @ '')'')"

definition line_mismatch_svc :: "stdlib \<Rightarrow> Transaction \<times> ExternalTransaction \<Rightarrow> string" where
  "line_mismatch_svc L p =
     (case p of (dbTx, csvTx) \<Rightarrow>
        ''  MISMATCH_AMOUNT: DB ID '' @ fmt_d L (TransactionID dbTx) @ '' ('' @ fmt_2f L (Amount dbTx)
        @ '' '' @ normalizeDBTransactionType_svc L (TransactionType dbTx) (FromAccountID dbTx) (ToAccountID dbTx)
        @ '') vs CSV ID '' @ ExternalID csvTx @ '' ('' @ fmt_2f L (ExtAmount csvTx) @ '' ''
        @ Type csvTx @ '', Ref: '' @ Reference csvTx @ '')'')"

definition line_db_svc :: "stdlib \<Rightarrow> Transaction \<Rightarrow> string" where
  "line_db_svc L dbTx =
     ''  DB ID: '' @ fmt_d L (TransactionID dbTx) @ '', Type: '' @ TransactionType dbTx
     @ '', Amount: '' @ fmt_2f L (Amount dbTx) @ '', Desc: '' @ Str (Description dbTx)"

definition line_csv_svc :: "stdlib \<Rightarrow> ExternalTransaction \<Rightarrow> string" where
  "line_csv_svc L csvTx =
     ''  CSV ID: '' @ ExternalID csvTx @ '', Type: '' @ Type csvTx
     @ '', Amount: '' @ fmt_2f L (ExtAmount csvTx) @ '', Ref: '' @ Reference csvTx"

text \<open>
  The four sections of the report: each is its title and then its lines, or the line
  \<^verbatim>\<open>None\<close> when it has no entry. Each string is one call of \<^verbatim>\<open>fmt.Println\<close>.
\<close>

definition sections_svc :: "stdlib \<Rightarrow> buckets \<Rightarrow> string list list" where
  "sections_svc L b =
     (let foundInBoth = map (line_match_svc L) (matched b);
          mismatchedAmounts = map (line_mismatch_svc L) (mismatchedAmount b);
          onlyInDB = map (line_db_svc L) (onlyInDB b);
          onlyInCSV = map (line_csv_svc L) (onlyInCSV b)
      in
      [(CHR 0x0A # ''[Transactions Found in Both Systems (Exact Match on Type & Amount)]'')
         # (if length foundInBoth > 0 then foundInBoth else [''  None'']),
       (CHR 0x0A # ''[Potential Matches with Mismatched Amounts (Same Type)]'')
         # (if length mismatchedAmounts > 0 then mismatchedAmounts else [''  None'']),
       (CHR 0x0A # ''[Transactions Only in Database]'')
         # (if length onlyInDB > 0 then onlyInDB else [''  None'']),
       (CHR 0x0A # ''[Transactions Only in CSV File]'')
         # (if length onlyInCSV > 0 then onlyInCSV else [''  None''])])"

text \<open>
  The method prints the first line, asks its data loader and its repository for the two
  sequences, and stops the process (\<^verbatim>\<open>log.Fatalf\<close>) when either fails. The loader and the
  repository are interfaces of the service; their results are the arguments \<open>csvResult\<close> and
  \<open>dbResult\<close> (\<open>Inl\<close>: the error). The result is the standard output, and whether the method
  returned.
\<close>

datatype run = Fatalf "string list" | Returned "string list"

definition ReconcileTransactions :: "stdlib \<Rightarrow> 'e + ExternalTransaction slice \<Rightarrow> 'f + Transaction slice \<Rightarrow> run" where
  "ReconcileTransactions L csvResult dbResult =
     (let out = [CHR 0x0A # ''--- Reconciliation Report ---''] in
      case csvResult of
        Inl err \<Rightarrow> Fatalf out
      | Inr csvTransactions \<Rightarrow>
          (case dbResult of
             Inl err \<Rightarrow> Fatalf out
           | Inr databaseTransactions \<Rightarrow>
               Returned (out
                 @ concat (sections_svc L
                     (classify_svc L (elems databaseTransactions) (elems csvTransactions)))
                 @ [CHR 0x0A # ''--- End of Reconciliation Report ---''])))"


section \<open>External record loader\<close>

text \<open>
  \<^verbatim>\<open>encoding/csv\<close> of the standard library. The file is taken as the sequence of its
  non-empty lines, each already split into its fields (\<open>Fields\<close>) or not splittable, as a line
  with an unbalanced quote (\<open>BadLine\<close>). A \<^verbatim>\<open>csv.Reader\<close> holds the lines left to read and its
  field \<^verbatim>\<open>FieldsPerRecord\<close>, which \<^verbatim>\<open>csv.NewReader\<close> leaves 0.

  \<^verbatim>\<open>Read\<close> returns the next record and an error: \<^verbatim>\<open>io.EOF\<close> at the end of the input; the
  syntax error of a bad line; and, as its documentation says, when \<^verbatim>\<open>FieldsPerRecord\<close> is
  positive a record with another number of fields comes with \<^verbatim>\<open>ErrFieldCount\<close>, when it is 0
  it is set to the number of fields of the first record, when it is negative nothing is
  checked.
\<close>

datatype csv_line = Fields "string list" | BadLine

datatype csv_error = EOF | ErrFieldCount | ErrSyntax

record Reader =
  input :: "csv_line list"
  FieldsPerRecord :: int

definition NewReader :: "csv_line list \<Rightarrow> Reader" where
  "NewReader content = \<lparr>input = content, FieldsPerRecord = 0\<rparr>"

definition Read :: "Reader \<Rightarrow> (string list \<times> csv_error option) \<times> Reader" where
  "Read r =
     (case input r of
        [] \<Rightarrow> (([], Some EOF), r)
      | BadLine # rest \<Rightarrow> (([], Some ErrSyntax), r\<lparr>input := rest\<rparr>)
      | Fields fs # rest \<Rightarrow>
          (if FieldsPerRecord r > 0 then
             (if int (length fs) \<noteq> FieldsPerRecord r
              then ((fs, Some ErrFieldCount), r\<lparr>input := rest\<rparr>)
              else ((fs, None), r\<lparr>input := rest\<rparr>))
           else if FieldsPerRecord r = 0
           then ((fs, None), r\<lparr>input := rest, FieldsPerRecord := int (length fs)\<rparr>)
           else ((fs, None), r\<lparr>input := rest\<rparr>)))"

text \<open>The errors the loader returns, and the warnings it logs.\<close>

datatype load_error = FailedToOpen | FailedToReadHeader csv_error | ErrorReadingRecord csv_error

datatype warning = SkippingMalformed "string list" | SkippingInvalidAmount string

text \<open>
  \<^verbatim>\<open>LoadExternalTransactions\<close> of internal/util/data_loader.go: the loop over the data rows, then the function.
  The argument of the function is what \<^verbatim>\<open>os.Open\<close> gives: \<open>None\<close> when the file cannot be
  opened, otherwise the lines of the file. The result is the warnings logged and the pair
  that the function returns (\<open>Inl\<close>: the slice is \<^verbatim>\<open>nil\<close> and the error is set).
\<close>

function read_records :: "stdlib \<Rightarrow> Reader \<Rightarrow> ExternalTransaction slice \<Rightarrow> warning list
    \<Rightarrow> warning list \<times> (load_error + ExternalTransaction slice)" where
  "read_records L reader transactions log =
     (case Read reader of
        ((record, Some err), reader') \<Rightarrow>
          (if err = EOF then (log, Inr transactions)
           else (log, Inl (ErrorReadingRecord err)))
      | ((record, None), reader') \<Rightarrow>
          (if length record < 4
           then read_records L reader' transactions (log @ [SkippingMalformed record])
           else case ParseFloat L (TrimSpace L (record ! 1)) of
             None \<Rightarrow> read_records L reader' transactions (log @ [SkippingInvalidAmount (record ! 1)])
           | Some amount \<Rightarrow>
               read_records L reader'
                 (append_slice transactions
                    \<lparr>ExternalID = TrimSpace L (record ! 0),
                     ExtAmount = amount,
                     Type = TrimSpace L (ToUpper L (record ! 2)),
                     Reference = TrimSpace L (record ! 3)\<rparr>)
                 log))"
  by pat_completeness auto
termination
  by (relation "measure (\<lambda>(L, reader, transactions, log). length (input reader))")
     (auto simp: Read_def split: list.splits csv_line.splits if_splits)

definition LoadExternalTransactions :: "stdlib \<Rightarrow> csv_line list option
    \<Rightarrow> warning list \<times> (load_error + ExternalTransaction slice)" where
  "LoadExternalTransactions L file =
     (case file of
        None \<Rightarrow> ([], Inl FailedToOpen)
      | Some content \<Rightarrow>
          (case Read (NewReader content) of
             ((header, Some err), reader) \<Rightarrow>
               (if err = EOF then ([], Inr (Slice []))
                else ([], Inl (FailedToReadHeader err)))
           | ((header, None), reader) \<Rightarrow> read_records L reader NilSlice []))"

text \<open>
  \<^verbatim>\<open>loadExternalTransactions\<close> of reconciliation.go: the loop over the data rows, then the function.
  The argument of the function is what \<^verbatim>\<open>os.Open\<close> gives: \<open>None\<close> when the file cannot be
  opened, otherwise the lines of the file. The result is the warnings logged and the pair
  that the function returns (\<open>Inl\<close>: the slice is \<^verbatim>\<open>nil\<close> and the error is set).
\<close>

function read_records_main :: "stdlib \<Rightarrow> Reader \<Rightarrow> ExternalTransaction slice \<Rightarrow> warning list
    \<Rightarrow> warning list \<times> (load_error + ExternalTransaction slice)" where
  "read_records_main L reader transactions log =
     (case Read reader of
        ((record, Some err), reader') \<Rightarrow>
          (if err = EOF then (log, Inr transactions)
           else (log, Inl (ErrorReadingRecord err)))
      | ((record, None), reader') \<Rightarrow>
          (if length record < 4
           then read_records_main L reader' transactions (log @ [SkippingMalformed record])
           else case ParseFloat L (TrimSpace L (record ! 1)) of
             None \<Rightarrow> read_records_main L reader' transactions (log @ [SkippingInvalidAmount (record ! 1)])
           | Some amount \<Rightarrow>
               read_records_main L reader'
                 (append_slice transactions
                    \<lparr>ExternalID = TrimSpace L (record ! 0),
                     ExtAmount = amount,
                     Type = TrimSpace L (ToUpper L (record ! 2)),
                     Reference = TrimSpace L (record ! 3)\<rparr>)
                 log))"
  by pat_completeness auto
termination
  by (relation "measure (\<lambda>(L, reader, transactions, log). length (input reader))")
     (auto simp: Read_def split: list.splits csv_line.splits if_splits)

definition loadExternalTransactions :: "stdlib \<Rightarrow> csv_line list option
    \<Rightarrow> warning list \<times> (load_error + ExternalTransaction slice)" where
  "loadExternalTransactions L file =
     (case file of
        None \<Rightarrow> ([], Inl FailedToOpen)
      | Some content \<Rightarrow>
          (case Read (NewReader content) of
             ((header, Some err), reader) \<Rightarrow>
               (if err = EOF then ([], Inr (Slice []))
                else ([], Inl (FailedToReadHeader err)))
           | ((header, None), reader) \<Rightarrow> read_records_main L reader NilSlice []))"

section \<open>The two-pass algorithm of the specification\<close>

text \<open>
  The matcher as the specification words it, on sets of consumed identities. Pass 1 goes
  through the whole ledger sequence and pairs a not yet consumed ledger transaction with the
  first not yet consumed external record of equal normalized type and equal amount; pass 2
  then goes through the ledger sequence again and pairs each transaction still not consumed
  with the first not yet consumed external record of equal normalized type.
\<close>

record ref_state =
  consumedLedger :: "int64 set"
  consumedExternal :: "string set"
  exactPairs :: "(Transaction \<times> ExternalTransaction) list"
  typeOnlyPairs :: "(Transaction \<times> ExternalTransaction) list"

definition ref_init :: ref_state where
  "ref_init = \<lparr>consumedLedger = {}, consumedExternal = {}, exactPairs = [], typeOnlyPairs = []\<rparr>"

definition normalized :: "stdlib \<Rightarrow> Transaction \<Rightarrow> string" where
  "normalized L t =
     normalizeDBTransactionType L (TransactionType t) (FromAccountID t) (ToAccountID t)"

definition first_exact :: "stdlib \<Rightarrow> ref_state \<Rightarrow> Transaction \<Rightarrow> ExternalTransaction list
    \<Rightarrow> ExternalTransaction option" where
  "first_exact L r t ext =
     find (\<lambda>e. ExternalID e \<notin> consumedExternal r \<and> normalized L t = Type e
                \<and> float64_eq (Amount t) (ExtAmount e)) ext"

definition first_same_type :: "stdlib \<Rightarrow> ref_state \<Rightarrow> Transaction \<Rightarrow> ExternalTransaction list
    \<Rightarrow> ExternalTransaction option" where
  "first_same_type L r t ext =
     find (\<lambda>e. ExternalID e \<notin> consumedExternal r \<and> normalized L t = Type e) ext"

definition record_exact :: "ref_state \<Rightarrow> Transaction \<Rightarrow> ExternalTransaction \<Rightarrow> ref_state" where
  "record_exact r t e =
     r\<lparr>consumedLedger := insert (TransactionID t) (consumedLedger r),
       consumedExternal := insert (ExternalID e) (consumedExternal r),
       exactPairs := exactPairs r @ [(t, e)]\<rparr>"

definition record_type_only :: "ref_state \<Rightarrow> Transaction \<Rightarrow> ExternalTransaction \<Rightarrow> ref_state" where
  "record_type_only r t e =
     r\<lparr>consumedLedger := insert (TransactionID t) (consumedLedger r),
       consumedExternal := insert (ExternalID e) (consumedExternal r),
       typeOnlyPairs := typeOnlyPairs r @ [(t, e)]\<rparr>"

definition pass1_step :: "stdlib \<Rightarrow> ExternalTransaction list \<Rightarrow> ref_state \<Rightarrow> Transaction \<Rightarrow> ref_state" where
  "pass1_step L ext r t =
     (if TransactionID t \<in> consumedLedger r then r
      else case first_exact L r t ext of Some e \<Rightarrow> record_exact r t e | None \<Rightarrow> r)"

definition pass2_step :: "stdlib \<Rightarrow> ExternalTransaction list \<Rightarrow> ref_state \<Rightarrow> Transaction \<Rightarrow> ref_state" where
  "pass2_step L ext r t =
     (if TransactionID t \<in> consumedLedger r then r
      else case first_same_type L r t ext of Some e \<Rightarrow> record_type_only r t e | None \<Rightarrow> r)"

definition ref_buckets :: "ref_state \<Rightarrow> Transaction list \<Rightarrow> ExternalTransaction list \<Rightarrow> buckets" where
  "ref_buckets r ledger ext =
     \<lparr>matched = exactPairs r,
      mismatchedAmount = typeOnlyPairs r,
      onlyInDB = filter (\<lambda>t. TransactionID t \<notin> consumedLedger r) ledger,
      onlyInCSV = filter (\<lambda>e. ExternalID e \<notin> consumedExternal r) ext\<rparr>"

definition reference_two_pass :: "stdlib \<Rightarrow> Transaction list \<Rightarrow> ExternalTransaction list \<Rightarrow> buckets" where
  "reference_two_pass L ledger ext =
     ref_buckets (foldl (pass2_step L ext) (foldl (pass1_step L ext) ref_init ledger) ledger)
       ledger ext"

text \<open>
  The same two scans taken one ledger transaction at a time: the exact scan and, when it
  finds nothing, at once the type-only scan, before the next ledger transaction is looked at.
\<close>

definition interleaved_step :: "stdlib \<Rightarrow> ExternalTransaction list \<Rightarrow> ref_state \<Rightarrow> Transaction \<Rightarrow> ref_state" where
  "interleaved_step L ext r t =
     (if TransactionID t \<in> consumedLedger r then r
      else case first_exact L r t ext of
        Some e \<Rightarrow> record_exact r t e
      | None \<Rightarrow>
          (case first_same_type L r t ext of Some e \<Rightarrow> record_type_only r t e | None \<Rightarrow> r))"

definition reference_interleaved :: "stdlib \<Rightarrow> Transaction list \<Rightarrow> ExternalTransaction list \<Rightarrow> buckets" where
  "reference_interleaved L ledger ext =
     ref_buckets (foldl (interleaved_step L ext) ref_init ledger) ledger ext"

section \<open>Identities in the buckets\<close>

definition ledger_ids :: "buckets \<Rightarrow> int64 list" where
  "ledger_ids b =
     map (\<lambda>p. TransactionID (fst p)) (matched b)
     @ map (\<lambda>p. TransactionID (fst p)) (mismatchedAmount b)
     @ map TransactionID (onlyInDB b)"

definition external_ids :: "buckets \<Rightarrow> string list" where
  "external_ids b =
     map (\<lambda>p. ExternalID (snd p)) (matched b)
     @ map (\<lambda>p. ExternalID (snd p)) (mismatchedAmount b)
     @ map ExternalID (onlyInCSV b)"

section \<open>Concrete inputs\<close>

text \<open>
  An instance of the library parameters, for running the model on ASCII inputs: the
  amounts \<^verbatim>\<open>100\<close>, \<^verbatim>\<open>50\<close> and \<^verbatim>\<open>-40\<close> parse to their \<^verbatim>\<open>float64\<close> bit patterns and print again,
  no other string parses, and trimming removes spaces at both ends.
\<close>

definition f100 :: float64 where "f100 = 0x4059000000000000"
definition f50 :: float64 where "f50 = 0x4049000000000000"
definition fm40 :: float64 where "fm40 = 0xC044000000000000"

definition ascii_lib :: stdlib where
  "ascii_lib =
     \<lparr>unicode_ToUpper = (\<lambda>s. s),
      TrimSpace = (\<lambda>s. rev (dropWhile (\<lambda>c. c = CHR '' '') (rev (dropWhile (\<lambda>c. c = CHR '' '') s)))),
      ParseFloat = (\<lambda>s. if s = ''100'' then Some f100 else if s = ''50'' then Some f50
                         else if s = ''-40'' then Some fm40 else None),
      fmt_d = (\<lambda>n. if n = 1 then ''1'' else if n = 2 then ''2'' else ''?''),
      fmt_2f = (\<lambda>x. if x = f100 then ''100.00'' else if x = f50 then ''50.00''
                      else if x = fm40 then ''-40.00'' else ''?'')\<rparr>"

definition ledger_tx :: "int64 \<Rightarrow> string \<Rightarrow> float64 \<Rightarrow> Transaction" where
  "ledger_tx i ty a =
     \<lparr>TransactionID = i,
      FromAccountID = \<lparr>Int64 = 0, Valid = False\<rparr>,
      ToAccountID = \<lparr>Int64 = 7, Valid = True\<rparr>,
      TransactionType = ty, Amount = a,
      Description = \<lparr>Str = [], StrValid = False\<rparr>\<rparr>"

definition ext_tx :: "string \<Rightarrow> string \<Rightarrow> float64 \<Rightarrow> ExternalTransaction" where
  "ext_tx i ty a = \<lparr>ExternalID = i, ExtAmount = a, Type = ty, Reference = ''ref''\<rparr>"

definition valid_row :: "string \<Rightarrow> string \<Rightarrow> csv_line" where
  "valid_row i a = Fields [i, a, ''deposit'', ''ref'']"

text \<open>A feed of five valid rows and one row cut after its second field.\<close>

definition feed_truncated_row :: "csv_line list" where
  "feed_truncated_row =
     [Fields [''id'', ''amount'', ''type'', ''reference''],
      valid_row ''E1'' ''100'', valid_row ''E2'' ''50'',
      Fields [''E3'', ''100''],
      valid_row ''E4'' ''-40'', valid_row ''E5'' ''50'', valid_row ''E6'' ''100'']"

text \<open>A feed of two valid rows and one row whose amount is not a number.\<close>

definition feed_bad_amount :: "csv_line list" where
  "feed_bad_amount =
     [Fields [''id'', ''amount'', ''type'', ''reference''],
      valid_row ''E1'' ''100'', valid_row ''E2'' ''abc'', valid_row ''E3'' ''50'']"

section \<open>Invariants of the matching loop\<close>

text \<open>The pairs made so far, of either kind.\<close>

definition pairs :: "match_state \<Rightarrow> (Transaction \<times> ExternalTransaction) list" where
  "pairs s = foundInBoth s @ mismatchedAmounts s"

text \<open>
  The two maps mark exactly the identities of the pairs made so far, and no identity is in
  two pairs.
\<close>

definition marks_agree :: "match_state \<Rightarrow> bool" where
  "marks_agree s =
     ((\<forall>k. lookup (processedDBTx s) k = (k \<in> (\<lambda>p. TransactionID (fst p)) ` set (pairs s)))
      \<and> (\<forall>e. lookup (processedCSVTx s) e = (e \<in> (\<lambda>p. ExternalID (snd p)) ` set (pairs s)))
      \<and> distinct (map (\<lambda>p. TransactionID (fst p)) (pairs s))
      \<and> distinct (map (\<lambda>p. ExternalID (snd p)) (pairs s)))"

text \<open>A pair of equal normalized type whose amounts \<^verbatim>\<open>==\<close> tells apart.\<close>

definition type_only :: "stdlib \<Rightarrow> Transaction \<times> ExternalTransaction \<Rightarrow> bool" where
  "type_only L p =
     (normalizeDBTransactionType L (TransactionType (fst p)) (FromAccountID (fst p))
        (ToAccountID (fst p)) = Type (snd p)
      \<and> \<not> float64_eq (Amount (fst p)) (ExtAmount (snd p)))"

text \<open>The state of the matcher and the state of the specification's algorithm agree.\<close>

definition same_marks :: "match_state \<Rightarrow> ref_state \<Rightarrow> bool" where
  "same_marks s r =
     ((\<forall>k. lookup (processedDBTx s) k = (k \<in> consumedLedger r))
      \<and> (\<forall>e. lookup (processedCSVTx s) e = (e \<in> consumedExternal r))
      \<and> foundInBoth s = exactPairs r
      \<and> mismatchedAmounts s = typeOnlyPairs r)"

text \<open>
  A ledger transaction that pass 2 has nothing to do for: it is consumed, or no external
  record of its type is left.
\<close>

definition settled :: "stdlib \<Rightarrow> ExternalTransaction list \<Rightarrow> ref_state \<Rightarrow> Transaction \<Rightarrow> bool" where
  "settled L ext r t =
     (TransactionID t \<in> consumedLedger r \<or> first_same_type L r t ext = None)"

section \<open>Evaluation rules\<close>

lemmas ToUpper_eval = ToUpper_def isASCII_def upper_byte_def char_of_def bit_0
lemmas float64_eval = float64_eq_def isNaN_def isZero_def f100_def f50_def fm40_def
lemmas fixture_eval = ledger_tx_def ext_tx_def ascii_lib_def
lemmas matcher_eval = classify_def match_step_def init_state_def lookup_def
  normalizeDBTransactionType_def Let_def
lemmas reference_eval = reference_two_pass_def reference_interleaved_def ref_buckets_def
  pass1_step_def pass2_step_def interleaved_step_def first_exact_def first_same_type_def
  record_exact_def record_type_only_def ref_init_def normalized_def
  normalizeDBTransactionType_def Let_def
lemmas loader_eval = LoadExternalTransactions_def loadExternalTransactions_def NewReader_def
  Read_def append_slice_def valid_row_def

section \<open>Properties of the type normalizer\<close>

text \<open>
  Claim C4. For every ledger type and every pair of account fields, the normalizer
  upper-cases the type and returns DEPOSIT for DEPOSIT, WITHDRAWAL for WITHDRAWAL,
  TRANSFER_OUT for TRANSFER with only the source account present, TRANSFER_IN for TRANSFER
  with only the destination account present, INTERNAL_TRANSFER for TRANSFER with both, and
  the upper-cased type itself for a type that is none of the three; \<^verbatim>\<open>deposit\<close> gives
  DEPOSIT and \<^verbatim>\<open>FOO\<close> gives FOO. The method of the service computes the same.
\<close>

theorem normalize_mapping:
  "(ToUpper L t = ''DEPOSIT'' \<longrightarrow> normalizeDBTransactionType L t fromID toID = ''DEPOSIT'')
   \<and> (ToUpper L t = ''WITHDRAWAL'' \<longrightarrow> normalizeDBTransactionType L t fromID toID = ''WITHDRAWAL'')
   \<and> (ToUpper L t = ''TRANSFER'' \<and> Valid fromID \<and> \<not> Valid toID
        \<longrightarrow> normalizeDBTransactionType L t fromID toID = ''TRANSFER_OUT'')
   \<and> (ToUpper L t = ''TRANSFER'' \<and> \<not> Valid fromID \<and> Valid toID
        \<longrightarrow> normalizeDBTransactionType L t fromID toID = ''TRANSFER_IN'')
   \<and> (ToUpper L t = ''TRANSFER'' \<and> Valid fromID \<and> Valid toID
        \<longrightarrow> normalizeDBTransactionType L t fromID toID = ''INTERNAL_TRANSFER'')
   \<and> (ToUpper L t \<notin> {''DEPOSIT'', ''WITHDRAWAL'', ''TRANSFER''}
        \<longrightarrow> normalizeDBTransactionType L t fromID toID = ToUpper L t)
   \<and> normalizeDBTransactionType L ''deposit'' fromID toID = ''DEPOSIT''
   \<and> normalizeDBTransactionType L ''FOO'' fromID toID = ''FOO''
   \<and> normalizeDBTransactionType_svc L t fromID toID = normalizeDBTransactionType L t fromID toID"
proof -
  have up: "ToUpper L ''deposit'' = ''DEPOSIT''" "ToUpper L ''FOO'' = ''FOO''"
    by (simp_all add: ToUpper_eval)
  show ?thesis
    unfolding normalizeDBTransactionType_def normalizeDBTransactionType_svc_def Let_def up
    by simp
qed

theorem normalize_mapping_witness:
  "ToUpper ascii_lib ''Deposit'' = ''DEPOSIT''
   \<and> normalizeDBTransactionType ascii_lib ''Deposit'' \<lparr>Int64 = 0, Valid = False\<rparr> \<lparr>Int64 = 7, Valid = True\<rparr> = ''DEPOSIT''
   \<and> ToUpper ascii_lib ''withdrawal'' = ''WITHDRAWAL''
   \<and> normalizeDBTransactionType ascii_lib ''withdrawal'' \<lparr>Int64 = 7, Valid = True\<rparr> \<lparr>Int64 = 0, Valid = False\<rparr> = ''WITHDRAWAL''
   \<and> ToUpper ascii_lib ''transfer'' = ''TRANSFER''
   \<and> normalizeDBTransactionType ascii_lib ''transfer'' \<lparr>Int64 = 7, Valid = True\<rparr> \<lparr>Int64 = 0, Valid = False\<rparr> = ''TRANSFER_OUT''
   \<and> normalizeDBTransactionType ascii_lib ''transfer'' \<lparr>Int64 = 0, Valid = False\<rparr> \<lparr>Int64 = 7, Valid = True\<rparr> = ''TRANSFER_IN''
   \<and> normalizeDBTransactionType ascii_lib ''transfer'' \<lparr>Int64 = 7, Valid = True\<rparr> \<lparr>Int64 = 8, Valid = True\<rparr> = ''INTERNAL_TRANSFER''
   \<and> ToUpper ascii_lib ''fee'' = ''FEE''
   \<and> ''FEE'' \<notin> {''DEPOSIT'', ''WITHDRAWAL'', ''TRANSFER''}
   \<and> normalizeDBTransactionType ascii_lib ''fee'' \<lparr>Int64 = 7, Valid = True\<rparr> \<lparr>Int64 = 8, Valid = True\<rparr> = ''FEE''"
proof -
  have u: "ToUpper ascii_lib ''Deposit'' = ''DEPOSIT''" "ToUpper ascii_lib ''withdrawal'' = ''WITHDRAWAL''"
    "ToUpper ascii_lib ''transfer'' = ''TRANSFER''" "ToUpper ascii_lib ''fee'' = ''FEE''"
    by (simp_all add: ToUpper_eval)
  show ?thesis
    using normalize_mapping [of ascii_lib "''Deposit''" "\<lparr>Int64 = 0, Valid = False\<rparr>" "\<lparr>Int64 = 7, Valid = True\<rparr>"]
      normalize_mapping [of ascii_lib "''withdrawal''" "\<lparr>Int64 = 7, Valid = True\<rparr>" "\<lparr>Int64 = 0, Valid = False\<rparr>"]
      normalize_mapping [of ascii_lib "''transfer''" "\<lparr>Int64 = 7, Valid = True\<rparr>" "\<lparr>Int64 = 0, Valid = False\<rparr>"]
      normalize_mapping [of ascii_lib "''transfer''" "\<lparr>Int64 = 0, Valid = False\<rparr>" "\<lparr>Int64 = 7, Valid = True\<rparr>"]
      normalize_mapping [of ascii_lib "''transfer''" "\<lparr>Int64 = 7, Valid = True\<rparr>" "\<lparr>Int64 = 8, Valid = True\<rparr>"]
      normalize_mapping [of ascii_lib "''fee''" "\<lparr>Int64 = 7, Valid = True\<rparr>" "\<lparr>Int64 = 8, Valid = True\<rparr>"]
    by (simp add: u)
qed

text \<open>
  Claim C10. A TRANSFER with neither account present leaves the normalizer through its
  fallback and comes back as TRANSFER, which is none of the five types of the external
  vocabulary.
\<close>

theorem transfer_without_accounts_falls_back:
  "normalizeDBTransactionType L ''TRANSFER'' \<lparr>Int64 = a, Valid = False\<rparr> \<lparr>Int64 = b, Valid = False\<rparr>
     = ''TRANSFER''
   \<and> normalizeDBTransactionType_svc L ''TRANSFER'' \<lparr>Int64 = a, Valid = False\<rparr> \<lparr>Int64 = b, Valid = False\<rparr>
     = ''TRANSFER''
   \<and> ''TRANSFER'' \<notin> {''DEPOSIT'', ''WITHDRAWAL'', ''TRANSFER_OUT'', ''TRANSFER_IN'', ''INTERNAL_TRANSFER''}"
  by (simp add: normalizeDBTransactionType_def normalizeDBTransactionType_svc_def ToUpper_eval)

section \<open>Properties of the loader\<close>

text \<open>
  Once the header has set \<^verbatim>\<open>FieldsPerRecord\<close>, a row with another number of fields anywhere in
  the rest of the feed ends the load with an error: \<^verbatim>\<open>Read\<close> returns \<^verbatim>\<open>ErrFieldCount\<close>, which is
  not \<^verbatim>\<open>io.EOF\<close>, before the loader can look at the length of the record.
\<close>

lemma read_records_field_count:
  "0 < FieldsPerRecord r \<Longrightarrow> Fields fs \<in> set (input r) \<Longrightarrow> int (length fs) \<noteq> FieldsPerRecord r
   \<Longrightarrow> \<exists>log' e. read_records L r txs log = (log', Inl (ErrorReadingRecord e))"
proof (induction L r txs log rule: read_records.induct)
  case (1 L reader transactions log)
  show ?case
  proof (cases "input reader")
    case Nil
    with 1(5) show ?thesis by simp
  next
    case (Cons l rest)
    show ?thesis
    proof (cases l)
      case BadLine
      with Cons show ?thesis
        by (subst read_records.simps) (simp add: Read_def)
    next
      case (Fields gs)
      show ?thesis
      proof (cases "int (length gs) = FieldsPerRecord reader")
        case False
        with Cons Fields 1(4) show ?thesis
          by (subst read_records.simps) (simp add: Read_def)
      next
        case True
        let ?r' = "reader\<lparr>input := rest\<rparr>"
        have rd: "Read reader = ((gs, None), ?r')"
          using Cons Fields True 1(4) by (simp add: Read_def)
        have mem: "Fields fs \<in> set (input ?r')"
          using 1(5,6) Cons Fields True by auto
        have fpr: "0 < FieldsPerRecord ?r'" "int (length fs) \<noteq> FieldsPerRecord ?r'"
          using 1(4,6) by simp_all
        show ?thesis
        proof (cases "length gs < 4")
          case short: True
          from "1.IH"(1) [OF rd [symmetric] refl refl short fpr(1) mem fpr(2)]
          show ?thesis
            using rd short by (subst read_records.simps) simp
        next
          case long: False
          show ?thesis
          proof (cases "ParseFloat L (TrimSpace L (gs ! 1))")
            case None
            from "1.IH"(2) [OF rd [symmetric] refl refl long None fpr(1) mem fpr(2)]
            show ?thesis
              using rd long None by (subst read_records.simps) simp
          next
            case (Some amount)
            from "1.IH"(3) [OF rd [symmetric] refl refl long Some fpr(1) mem fpr(2)]
            show ?thesis
              using rd long Some by (subst read_records.simps) simp
          qed
        qed
      qed
    qed
  qed
qed

text \<open>
  So a feed that holds both a row of fewer than four fields and a row of at least four is
  never loaded: one of the two differs from the header.
\<close>

lemma short_row_among_valid_rows_is_fatal:
  assumes "h \<noteq> []" "Fields fs \<in> set rows" "length fs < 4" "Fields gs \<in> set rows" "4 \<le> length gs"
  shows "\<exists>log e. LoadExternalTransactions L (Some (Fields h # rows)) = (log, Inl (ErrorReadingRecord e))"
proof -
  let ?r = "\<lparr>input = rows, FieldsPerRecord = int (length h)\<rparr>"
  have rd: "Read (NewReader (Fields h # rows)) = ((h, None), ?r)"
    by (simp add: Read_def NewReader_def)
  have pos: "0 < FieldsPerRecord ?r" using assms(1) by simp
  have "length fs \<noteq> length h \<or> length gs \<noteq> length h" using assms(3,5) by arith
  then obtain row where "Fields row \<in> set (input ?r)" "int (length row) \<noteq> FieldsPerRecord ?r"
    using assms(2,4) by auto
  from read_records_field_count [OF pos this]
  show ?thesis by (simp add: LoadExternalTransactions_def rd)
qed

text \<open>
  Claim C3. A data row with fewer than four fields, or with an amount that is not a number,
  is to be skipped with a warning while the load goes on; a feed of five valid rows and one
  truncated row is to load the valid rows. On the feed \<open>feed_truncated_row\<close> both copies of
  the loader return the error of \<^verbatim>\<open>Read\<close> instead, for every behaviour of the library
  parameters. The other half of the claim holds: on \<open>feed_bad_amount\<close> the row with the
  amount \<^verbatim>\<open>abc\<close> is skipped with its warning and the two other rows are loaded.
\<close>

theorem truncated_row_aborts_load:
  "snd (LoadExternalTransactions L (Some feed_truncated_row)) = Inl (ErrorReadingRecord ErrFieldCount)
   \<and> snd (loadExternalTransactions L (Some feed_truncated_row)) = Inl (ErrorReadingRecord ErrFieldCount)
   \<and> LoadExternalTransactions ascii_lib (Some feed_bad_amount)
       = ([SkippingInvalidAmount ''abc''],
          Inr (Slice [\<lparr>ExternalID = ''E1'', ExtAmount = f100, Type = ''DEPOSIT'', Reference = ''ref''\<rparr>,
                      \<lparr>ExternalID = ''E3'', ExtAmount = f50, Type = ''DEPOSIT'', Reference = ''ref''\<rparr>]))"
proof -
  have a: "snd (LoadExternalTransactions L (Some feed_truncated_row)) = Inl (ErrorReadingRecord ErrFieldCount)"
    by (simp add: loader_eval feed_truncated_row_def split: option.splits)
  have b: "snd (loadExternalTransactions L (Some feed_truncated_row)) = Inl (ErrorReadingRecord ErrFieldCount)"
    by (simp add: loader_eval feed_truncated_row_def split: option.splits)
  have c: "LoadExternalTransactions ascii_lib (Some feed_bad_amount)
       = ([SkippingInvalidAmount ''abc''],
          Inr (Slice [\<lparr>ExternalID = ''E1'', ExtAmount = f100, Type = ''DEPOSIT'', Reference = ''ref''\<rparr>,
                      \<lparr>ExternalID = ''E3'', ExtAmount = f50, Type = ''DEPOSIT'', Reference = ''ref''\<rparr>]))"
    by (simp add: loader_eval feed_bad_amount_def ascii_lib_def ToUpper_eval)
  from a b c show ?thesis by simp
qed

text \<open>
  Claim C7. A feed with a header line only, or with no line at all, is to give an empty
  sequence that is not \<^verbatim>\<open>nil\<close>, and no error. With no line at all both copies of the loader
  return the empty slice literal; with a header only they return the variable
  \<^verbatim>\<open>transactions\<close>, which nothing was appended to and which is still \<^verbatim>\<open>nil\<close>.
\<close>

theorem header_only_feed_returns_nil:
  "LoadExternalTransactions L (Some [Fields header]) = ([], Inr NilSlice)
   \<and> loadExternalTransactions L (Some [Fields header]) = ([], Inr NilSlice)
   \<and> (NilSlice :: ExternalTransaction slice) \<noteq> Slice []
   \<and> LoadExternalTransactions L (Some []) = ([], Inr (Slice []))
   \<and> loadExternalTransactions L (Some []) = ([], Inr (Slice []))"
  by (simp add: loader_eval)

section \<open>Properties of the matcher\<close>

subsection \<open>The loops, step by step\<close>

lemma lookup_upd: "lookup (m(k \<mapsto> True)) k' = (k' = k \<or> lookup m k')"
  by (simp add: lookup_def)

lemma lookup_empty: "lookup Map.empty k = False"
  by (simp add: lookup_def)

lemma scan_exact_Some:
  "scan_exact L dbTx pcsv csvTxs = Some csvTx \<Longrightarrow>
   csvTx \<in> set csvTxs \<and> \<not> lookup pcsv (ExternalID csvTx)
   \<and> normalizeDBTransactionType L (TransactionType dbTx) (FromAccountID dbTx) (ToAccountID dbTx)
       = Type csvTx
   \<and> float64_eq (Amount dbTx) (ExtAmount csvTx)"
  by (induction csvTxs) (auto split: if_splits)

lemma scan_exact_None:
  "scan_exact L dbTx pcsv csvTxs = None \<Longrightarrow> csvTx \<in> set csvTxs \<Longrightarrow> \<not> lookup pcsv (ExternalID csvTx)
   \<Longrightarrow> normalizeDBTransactionType L (TransactionType dbTx) (FromAccountID dbTx) (ToAccountID dbTx)
         = Type csvTx
   \<Longrightarrow> \<not> float64_eq (Amount dbTx) (ExtAmount csvTx)"
  by (induction csvTxs) (auto split: if_splits)

lemma scan_type_Some:
  "scan_type L dbTx pcsv csvTxs = Some csvTx \<Longrightarrow>
   csvTx \<in> set csvTxs \<and> \<not> lookup pcsv (ExternalID csvTx)
   \<and> normalizeDBTransactionType L (TransactionType dbTx) (FromAccountID dbTx) (ToAccountID dbTx)
       = Type csvTx"
  by (induction csvTxs) (auto split: if_splits)

text \<open>What one round of the outer loop does, case by case.\<close>

lemma match_step_cases:
  obtains
    (skip) "match_step L csvTxs s dbTx = s"
  | (exact) csvTx where
      "\<not> lookup (processedDBTx s) (TransactionID dbTx)"
      "scan_exact L dbTx (processedCSVTx s) csvTxs = Some csvTx"
      "match_step L csvTxs s dbTx =
         s\<lparr>foundInBoth := foundInBoth s @ [(dbTx, csvTx)],
           processedDBTx := (processedDBTx s)(TransactionID dbTx \<mapsto> True),
           processedCSVTx := (processedCSVTx s)(ExternalID csvTx \<mapsto> True)\<rparr>"
  | (type) csvTx where
      "\<not> lookup (processedDBTx s) (TransactionID dbTx)"
      "scan_exact L dbTx (processedCSVTx s) csvTxs = None"
      "scan_type L dbTx (processedCSVTx s) csvTxs = Some csvTx"
      "match_step L csvTxs s dbTx =
         s\<lparr>mismatchedAmounts := mismatchedAmounts s @ [(dbTx, csvTx)],
           processedDBTx := (processedDBTx s)(TransactionID dbTx \<mapsto> True),
           processedCSVTx := (processedCSVTx s)(ExternalID csvTx \<mapsto> True)\<rparr>"
  by (cases "lookup (processedDBTx s) (TransactionID dbTx)";
      cases "scan_exact L dbTx (processedCSVTx s) csvTxs";
      cases "scan_type L dbTx (processedCSVTx s) csvTxs")
     (auto simp: match_step_def)

lemma match_step_marks_agree:
  assumes "marks_agree s"
  shows "marks_agree (match_step L csvTxs s dbTx)"
proof (cases rule: match_step_cases [of L csvTxs s dbTx])
  case skip
  with assms show ?thesis by simp
next
  case (exact csvTx)
  from scan_exact_Some [OF exact(2)] have "\<not> lookup (processedCSVTx s) (ExternalID csvTx)" by simp
  with assms exact(1) show ?thesis
    unfolding exact(3) marks_agree_def pairs_def
    by (auto simp: lookup_upd)
next
  case (type csvTx)
  from scan_type_Some [OF type(3)] have "\<not> lookup (processedCSVTx s) (ExternalID csvTx)" by simp
  with assms type(1) show ?thesis
    unfolding type(4) marks_agree_def pairs_def
    by (auto simp: lookup_upd)
qed

lemma match_loop_marks_agree:
  "marks_agree s \<Longrightarrow> marks_agree (match_loop L csvTxs s dbTxs)"
  by (induction dbTxs arbitrary: s) (simp_all add: match_step_marks_agree)

lemma marks_agree_init: "marks_agree init_state"
  by (simp add: marks_agree_def init_state_def pairs_def lookup_empty)

lemma match_step_pairs_from_input:
  "set (pairs (match_step L csvTxs s dbTx)) \<subseteq> set (pairs s) \<union> {dbTx} \<times> set csvTxs"
proof (cases rule: match_step_cases [of L csvTxs s dbTx])
  case skip
  then show ?thesis by auto
next
  case (exact csvTx)
  from scan_exact_Some [OF exact(2)] show ?thesis
    unfolding exact(3) pairs_def by auto
next
  case (type csvTx)
  from scan_type_Some [OF type(3)] show ?thesis
    unfolding type(4) pairs_def by auto
qed

lemma match_loop_pairs_from_input:
  "set (pairs (match_loop L csvTxs s dbTxs)) \<subseteq> set (pairs s) \<union> set dbTxs \<times> set csvTxs"
proof (induction dbTxs arbitrary: s)
  case Nil
  then show ?case by simp
next
  case (Cons dbTx rest)
  from Cons [of "match_step L csvTxs s dbTx"] match_step_pairs_from_input [of L csvTxs s dbTx]
  show ?case by auto
qed

lemma match_step_type_only:
  assumes "\<forall>p \<in> set (mismatchedAmounts s). type_only L p"
  shows "\<forall>p \<in> set (mismatchedAmounts (match_step L csvTxs s dbTx)). type_only L p"
proof (cases rule: match_step_cases [of L csvTxs s dbTx])
  case skip
  with assms show ?thesis by simp
next
  case (exact csvTx)
  with assms show ?thesis by simp
next
  case (type csvTx)
  from scan_type_Some [OF type(3)] scan_exact_None [OF type(2), of csvTx]
  have "type_only L (dbTx, csvTx)" by (auto simp: type_only_def)
  with assms show ?thesis unfolding type(4) by simp
qed

lemma match_loop_type_only:
  "\<forall>p \<in> set (mismatchedAmounts s). type_only L p
   \<Longrightarrow> \<forall>p \<in> set (mismatchedAmounts (match_loop L csvTxs s dbTxs)). type_only L p"
proof (induction dbTxs arbitrary: s)
  case Nil
  then show ?case by simp
next
  case (Cons dbTx rest)
  from Cons.IH [OF match_step_type_only [OF Cons.prems]] show ?case by simp
qed

subsection \<open>The buckets\<close>

text \<open>
  Claim C5. Every pair in the bucket of mismatched amounts is a ledger transaction and an
  external record of the input whose normalized types are equal and whose amounts are not
  equal (\<^verbatim>\<open>==\<close> of \<^verbatim>\<open>float64\<close>); so no pair of equal type and equal amount is in that bucket.
\<close>

theorem mismatched_pairs_differ_in_amount:
  "(dbTx, csvTx) \<in> set (mismatchedAmount (classify L dbTxs csvTxs)) \<Longrightarrow>
   dbTx \<in> set dbTxs \<and> csvTx \<in> set csvTxs
   \<and> normalizeDBTransactionType L (TransactionType dbTx) (FromAccountID dbTx) (ToAccountID dbTx)
       = Type csvTx
   \<and> \<not> float64_eq (Amount dbTx) (ExtAmount csvTx)"
proof -
  assume m: "(dbTx, csvTx) \<in> set (mismatchedAmount (classify L dbTxs csvTxs))"
  let ?s = "match_loop L csvTxs init_state dbTxs"
  from m have mem: "(dbTx, csvTx) \<in> set (mismatchedAmounts ?s)"
    by (simp add: classify_def Let_def)
  have "\<forall>p \<in> set (mismatchedAmounts ?s). type_only L p"
    by (rule match_loop_type_only) (simp add: init_state_def)
  with mem have "type_only L (dbTx, csvTx)" by blast
  moreover have "(dbTx, csvTx) \<in> set dbTxs \<times> set csvTxs"
    using mem match_loop_pairs_from_input [of L csvTxs init_state dbTxs]
    by (auto simp: pairs_def init_state_def)
  ultimately show ?thesis by (simp add: type_only_def)
qed

theorem mismatched_pairs_differ_in_amount_witness:
  "(ledger_tx 1 ''DEPOSIT'' f100, ext_tx ''E1'' ''DEPOSIT'' f50)
     \<in> set (mismatchedAmount (classify ascii_lib
              [ledger_tx 1 ''DEPOSIT'' f100, ledger_tx 2 ''DEPOSIT'' f50]
              [ext_tx ''E1'' ''DEPOSIT'' f50]))
   \<and> normalizeDBTransactionType ascii_lib ''DEPOSIT'' \<lparr>Int64 = 0, Valid = False\<rparr> \<lparr>Int64 = 7, Valid = True\<rparr>
       = ''DEPOSIT''
   \<and> \<not> float64_eq f100 f50"
proof -
  have m: "(ledger_tx 1 ''DEPOSIT'' f100, ext_tx ''E1'' ''DEPOSIT'' f50)
     \<in> set (mismatchedAmount (classify ascii_lib
              [ledger_tx 1 ''DEPOSIT'' f100, ledger_tx 2 ''DEPOSIT'' f50]
              [ext_tx ''E1'' ''DEPOSIT'' f50]))"
    by (simp add: matcher_eval ToUpper_eval float64_eval fixture_eval)
  from mismatched_pairs_differ_in_amount [OF m] m show ?thesis
    by (simp add: fixture_eval)
qed

text \<open>
  Claim C2. When the ledger ids are pairwise distinct and the external ids are pairwise
  distinct, the ledger ids of the matched pairs, of the mismatched pairs and of the
  ledger-only bucket, taken together, are the ledger ids of the input, each once; and the
  same for the external ids with the external-only bucket.
\<close>

theorem partition_complete:
  assumes "distinct (map TransactionID dbTxs)" and "distinct (map ExternalID csvTxs)"
  shows "distinct (ledger_ids (classify L dbTxs csvTxs))
         \<and> set (ledger_ids (classify L dbTxs csvTxs)) = set (map TransactionID dbTxs)
         \<and> distinct (external_ids (classify L dbTxs csvTxs))
         \<and> set (external_ids (classify L dbTxs csvTxs)) = set (map ExternalID csvTxs)"
proof -
  let ?s = "match_loop L csvTxs init_state dbTxs"
  let ?lid = "\<lambda>p::Transaction \<times> ExternalTransaction. TransactionID (fst p)"
  let ?eid = "\<lambda>p::Transaction \<times> ExternalTransaction. ExternalID (snd p)"
  let ?restL = "filter (\<lambda>dbTx. \<not> lookup (processedDBTx ?s) (TransactionID dbTx)) dbTxs"
  let ?restE = "filter (\<lambda>csvTx. \<not> lookup (processedCSVTx ?s) (ExternalID csvTx)) csvTxs"
  have inv: "marks_agree ?s"
    by (rule match_loop_marks_agree) (rule marks_agree_init)
  have sub: "set (pairs ?s) \<subseteq> set dbTxs \<times> set csvTxs"
    using match_loop_pairs_from_input [of L csvTxs init_state dbTxs]
    by (simp add: pairs_def init_state_def)
  have markL: "lookup (processedDBTx ?s) k = (k \<in> ?lid ` set (pairs ?s))" for k
    using inv by (simp add: marks_agree_def)
  have markE: "lookup (processedCSVTx ?s) e = (e \<in> ?eid ` set (pairs ?s))" for e
    using inv by (simp add: marks_agree_def)
  have dL: "distinct (map ?lid (pairs ?s))" and dE: "distinct (map ?eid (pairs ?s))"
    using inv by (simp_all add: marks_agree_def)
  have idsL: "ledger_ids (classify L dbTxs csvTxs) = map ?lid (pairs ?s) @ map TransactionID ?restL"
    by (simp add: ledger_ids_def classify_def Let_def pairs_def)
  have idsE: "external_ids (classify L dbTxs csvTxs) = map ?eid (pairs ?s) @ map ExternalID ?restE"
    by (simp add: external_ids_def classify_def Let_def pairs_def)
  have restL: "set (map TransactionID ?restL) = TransactionID ` set dbTxs - ?lid ` set (pairs ?s)"
    unfolding markL by auto
  have restE: "set (map ExternalID ?restE) = ExternalID ` set csvTxs - ?eid ` set (pairs ?s)"
    unfolding markE by auto
  have subL: "?lid ` set (pairs ?s) \<subseteq> TransactionID ` set dbTxs"
    using sub by auto
  have subE: "?eid ` set (pairs ?s) \<subseteq> ExternalID ` set csvTxs"
    using sub by auto
  have d1: "distinct (map ?lid (pairs ?s) @ map TransactionID ?restL)"
    unfolding distinct_append restL using dL assms(1) by (auto simp: distinct_map_filter)
  have s1: "set (map ?lid (pairs ?s) @ map TransactionID ?restL) = set (map TransactionID dbTxs)"
    unfolding set_append restL using subL by auto
  have d2: "distinct (map ?eid (pairs ?s) @ map ExternalID ?restE)"
    unfolding distinct_append restE using dE assms(2) by (auto simp: distinct_map_filter)
  have s2: "set (map ?eid (pairs ?s) @ map ExternalID ?restE) = set (map ExternalID csvTxs)"
    unfolding set_append restE using subE by auto
  from d1 s1 d2 s2 show ?thesis unfolding idsL idsE by blast
qed

theorem partition_complete_witness:
  "distinct (map TransactionID [ledger_tx 1 ''DEPOSIT'' f100, ledger_tx 2 ''DEPOSIT'' f50])
   \<and> distinct (map ExternalID [ext_tx ''E1'' ''DEPOSIT'' f50, ext_tx ''E2'' ''FEE'' f100])
   \<and> ledger_ids (classify ascii_lib
        [ledger_tx 1 ''DEPOSIT'' f100, ledger_tx 2 ''DEPOSIT'' f50]
        [ext_tx ''E1'' ''DEPOSIT'' f50, ext_tx ''E2'' ''FEE'' f100]) = [1, 2]
   \<and> set (ledger_ids (classify ascii_lib
        [ledger_tx 1 ''DEPOSIT'' f100, ledger_tx 2 ''DEPOSIT'' f50]
        [ext_tx ''E1'' ''DEPOSIT'' f50, ext_tx ''E2'' ''FEE'' f100])) = {1, 2}
   \<and> external_ids (classify ascii_lib
        [ledger_tx 1 ''DEPOSIT'' f100, ledger_tx 2 ''DEPOSIT'' f50]
        [ext_tx ''E1'' ''DEPOSIT'' f50, ext_tx ''E2'' ''FEE'' f100]) = [''E1'', ''E2'']"
proof -
  have h1: "distinct (map TransactionID [ledger_tx 1 ''DEPOSIT'' f100, ledger_tx 2 ''DEPOSIT'' f50])"
    by (simp add: fixture_eval)
  have h2: "distinct (map ExternalID [ext_tx ''E1'' ''DEPOSIT'' f50, ext_tx ''E2'' ''FEE'' f100])"
    by (simp add: fixture_eval)
  have e: "classify ascii_lib
        [ledger_tx 1 ''DEPOSIT'' f100, ledger_tx 2 ''DEPOSIT'' f50]
        [ext_tx ''E1'' ''DEPOSIT'' f50, ext_tx ''E2'' ''FEE'' f100]
     = \<lparr>matched = [],
        mismatchedAmount = [(ledger_tx 1 ''DEPOSIT'' f100, ext_tx ''E1'' ''DEPOSIT'' f50)],
        onlyInDB = [ledger_tx 2 ''DEPOSIT'' f50],
        onlyInCSV = [ext_tx ''E2'' ''FEE'' f100]\<rparr>"
    by (simp add: matcher_eval ToUpper_eval float64_eval fixture_eval)
  have ids: "TransactionID (ledger_tx i ty a) = i" "ExternalID (ext_tx x ty a) = x" for i ty a x
    by (simp_all add: fixture_eval)
  from partition_complete [OF h1 h2, of ascii_lib] h1 h2 show ?thesis
    unfolding e by (simp add: ledger_ids_def external_ids_def ids)
qed

text \<open>
  Claim C9. Two ledger transactions at different positions with the same id, the first of
  which is paired: the second is skipped by the matching loop, since its id is marked, and
  left out of the ledger-only bucket for the same reason. It is in none of the buckets.
\<close>

theorem duplicate_ledger_id_dropped:
  "TransactionID (ledger_tx 1 ''DEPOSIT'' f100) = TransactionID (ledger_tx 1 ''WITHDRAWAL'' f50)
   \<and> classify ascii_lib
        [ledger_tx 1 ''DEPOSIT'' f100, ledger_tx 1 ''WITHDRAWAL'' f50]
        [ext_tx ''E1'' ''DEPOSIT'' f100]
      = \<lparr>matched = [(ledger_tx 1 ''DEPOSIT'' f100, ext_tx ''E1'' ''DEPOSIT'' f100)],
         mismatchedAmount = [], onlyInDB = [], onlyInCSV = []\<rparr>
   \<and> ledger_tx 1 ''WITHDRAWAL'' f50 \<noteq> ledger_tx 1 ''DEPOSIT'' f100"
  by (simp add: matcher_eval ToUpper_eval float64_eval fixture_eval)

subsection \<open>The two copies\<close>

text \<open>The service's copies of the loops are the loops of the function.\<close>

lemma normalize_svc_eq: "normalizeDBTransactionType_svc = normalizeDBTransactionType"
  by (intro ext) (simp add: normalizeDBTransactionType_svc_def normalizeDBTransactionType_def)

lemma scan_exact_svc_eq: "scan_exact_svc L dbTx pcsv csvTxs = scan_exact L dbTx pcsv csvTxs"
  by (induction csvTxs) (simp_all add: normalize_svc_eq)

lemma scan_type_svc_eq: "scan_type_svc L dbTx pcsv csvTxs = scan_type L dbTx pcsv csvTxs"
  by (induction csvTxs) (simp_all add: normalize_svc_eq)

lemma match_step_svc_eq: "match_step_svc L csvTxs s dbTx = match_step L csvTxs s dbTx"
  by (simp add: match_step_svc_def match_step_def scan_exact_svc_eq scan_type_svc_eq
      split: option.split)

lemma match_loop_svc_eq: "match_loop_svc L csvTxs s dbTxs = match_loop L csvTxs s dbTxs"
  by (induction dbTxs arbitrary: s) (simp_all add: match_step_svc_eq)

lemma classify_svc_eq: "classify_svc L dbTxs csvTxs = classify L dbTxs csvTxs"
  by (simp add: classify_svc_def classify_def match_loop_svc_eq)

lemma sections_svc_eq: "sections_svc L b = sections L b"
  by (simp add: sections_svc_def sections_def line_match_svc_def line_match_def
      line_mismatch_svc_def line_mismatch_def line_db_svc_def line_db_def
      line_csv_svc_def line_csv_def normalize_svc_eq)

text \<open>
  Claim C6. The function \<^verbatim>\<open>reconcileTransactions\<close> and the method \<^verbatim>\<open>ReconcileTransactions\<close> of
  the service put the same pairs and records into the four buckets and render the same four
  sections; on the sequences its loader and its repository return, the method prints what
  the function prints.
\<close>

theorem copies_agree:
  "classify_svc L dbTxs csvTxs = classify L dbTxs csvTxs
   \<and> sections_svc L (classify_svc L dbTxs csvTxs) = sections L (classify L dbTxs csvTxs)
   \<and> length (sections L (classify L dbTxs csvTxs)) = 4
   \<and> ReconcileTransactions L (Inr csvTransactions) (Inr databaseTransactions)
       = Returned (reconcileTransactions L (elems databaseTransactions) (elems csvTransactions))"
  by (simp add: classify_svc_eq sections_svc_eq ReconcileTransactions_def
      reconcileTransactions_def sections_def Let_def)

subsection \<open>The matcher and the two-pass algorithm\<close>

text \<open>
  Claim C1, as stated, fails. The ledger holds a deposit of 100 and then a deposit of 50, the
  feed one deposit of 50. The matcher gives the record to the first ledger transaction as a
  pair of mismatched amounts, before it has looked at the second one; the two-pass algorithm
  pairs the record exactly with the second ledger transaction.
\<close>

theorem two_pass_counterexample:
  "classify ascii_lib
     [ledger_tx 1 ''DEPOSIT'' f100, ledger_tx 2 ''DEPOSIT'' f50] [ext_tx ''E1'' ''DEPOSIT'' f50]
   = \<lparr>matched = [],
      mismatchedAmount = [(ledger_tx 1 ''DEPOSIT'' f100, ext_tx ''E1'' ''DEPOSIT'' f50)],
      onlyInDB = [ledger_tx 2 ''DEPOSIT'' f50], onlyInCSV = []\<rparr>
   \<and> reference_two_pass ascii_lib
     [ledger_tx 1 ''DEPOSIT'' f100, ledger_tx 2 ''DEPOSIT'' f50] [ext_tx ''E1'' ''DEPOSIT'' f50]
   = \<lparr>matched = [(ledger_tx 2 ''DEPOSIT'' f50, ext_tx ''E1'' ''DEPOSIT'' f50)],
      mismatchedAmount = [],
      onlyInDB = [ledger_tx 1 ''DEPOSIT'' f100], onlyInCSV = []\<rparr>
   \<and> classify ascii_lib
     [ledger_tx 1 ''DEPOSIT'' f100, ledger_tx 2 ''DEPOSIT'' f50] [ext_tx ''E1'' ''DEPOSIT'' f50]
   \<noteq> reference_two_pass ascii_lib
     [ledger_tx 1 ''DEPOSIT'' f100, ledger_tx 2 ''DEPOSIT'' f50] [ext_tx ''E1'' ''DEPOSIT'' f50]"
  by (simp add: matcher_eval reference_eval ToUpper_eval float64_eval fixture_eval)

text \<open>The matcher and the interleaved reference go in step.\<close>

lemma same_marks_init: "same_marks init_state ref_init"
  by (simp add: same_marks_def init_state_def ref_init_def lookup_empty)

lemma scan_exact_first_exact:
  "same_marks s r \<Longrightarrow> scan_exact L t (processedCSVTx s) ext = first_exact L r t ext"
  by (induction ext) (simp_all add: first_exact_def same_marks_def normalized_def)

lemma scan_type_first_same_type:
  "same_marks s r \<Longrightarrow> scan_type L t (processedCSVTx s) ext = first_same_type L r t ext"
  by (induction ext) (simp_all add: first_same_type_def same_marks_def normalized_def)

lemma match_step_interleaved_step:
  assumes "same_marks s r"
  shows "same_marks (match_step L ext s t) (interleaved_step L ext r t)"
proof -
  have k: "lookup (processedDBTx s) (TransactionID t) = (TransactionID t \<in> consumedLedger r)"
    using assms by (simp add: same_marks_def)
  show ?thesis
    using assms
    unfolding match_step_def interleaved_step_def k
      scan_exact_first_exact [OF assms] scan_type_first_same_type [OF assms]
    by (auto simp: same_marks_def record_exact_def record_type_only_def lookup_upd
        split: option.splits)
qed

lemma match_loop_interleaved:
  "same_marks s r \<Longrightarrow>
   same_marks (match_loop L ext s ledger) (foldl (interleaved_step L ext) r ledger)"
proof (induction ledger arbitrary: s r)
  case Nil
  then show ?case by simp
next
  case (Cons t rest)
  from Cons.IH [OF match_step_interleaved_step [OF Cons.prems]] show ?case by simp
qed

lemma classify_interleaved: "classify L ledger ext = reference_interleaved L ledger ext"
proof -
  let ?s = "match_loop L ext init_state ledger"
  let ?r = "foldl (interleaved_step L ext) ref_init ledger"
  have "same_marks ?s ?r"
    by (rule match_loop_interleaved) (rule same_marks_init)
  then show ?thesis
    by (simp add: classify_def reference_interleaved_def ref_buckets_def same_marks_def Let_def)
qed

text \<open>
  When the interleaved run makes no type-only pair, it is pass 1, and it leaves pass 2
  nothing to do.
\<close>

lemma interleaved_step_grows:
  "consumedLedger r \<subseteq> consumedLedger (interleaved_step L ext r t)
   \<and> consumedExternal r \<subseteq> consumedExternal (interleaved_step L ext r t)
   \<and> (\<exists>ys. typeOnlyPairs (interleaved_step L ext r t) = typeOnlyPairs r @ ys)"
  by (auto simp: interleaved_step_def record_exact_def record_type_only_def split: option.splits)

lemma interleaved_grows:
  "consumedLedger r \<subseteq> consumedLedger (foldl (interleaved_step L ext) r ledger)
   \<and> consumedExternal r \<subseteq> consumedExternal (foldl (interleaved_step L ext) r ledger)
   \<and> (\<exists>ys. typeOnlyPairs (foldl (interleaved_step L ext) r ledger) = typeOnlyPairs r @ ys)"
proof (induction ledger arbitrary: r)
  case Nil
  then show ?case by simp
next
  case (Cons t rest)
  from Cons [of "interleaved_step L ext r t"] interleaved_step_grows [of r L ext t]
  show ?case by fastforce
qed

lemma settled_mono:
  assumes "settled L ext r t" "consumedLedger r \<subseteq> consumedLedger r'"
    "consumedExternal r \<subseteq> consumedExternal r'"
  shows "settled L ext r' t"
  using assms by (auto simp: settled_def first_same_type_def find_None_iff)

lemma interleaved_step_quiet:
  assumes "typeOnlyPairs (interleaved_step L ext r t) = typeOnlyPairs r"
  shows "interleaved_step L ext r t = pass1_step L ext r t
         \<and> settled L ext (interleaved_step L ext r t) t"
  using assms
  by (auto simp: interleaved_step_def pass1_step_def settled_def record_exact_def
      record_type_only_def split: option.splits)

lemma interleaved_quiet:
  "typeOnlyPairs (foldl (interleaved_step L ext) r ledger) = typeOnlyPairs r \<Longrightarrow>
   foldl (interleaved_step L ext) r ledger = foldl (pass1_step L ext) r ledger
   \<and> (\<forall>t \<in> set ledger. settled L ext (foldl (interleaved_step L ext) r ledger) t)"
proof (induction ledger arbitrary: r)
  case Nil
  then show ?case by simp
next
  case (Cons t rest)
  let ?r1 = "interleaved_step L ext r t"
  let ?r2 = "foldl (interleaved_step L ext) ?r1 rest"
  obtain xs where xs: "typeOnlyPairs ?r1 = typeOnlyPairs r @ xs"
    using interleaved_step_grows [of r L ext t] by blast
  obtain ys where ys: "typeOnlyPairs ?r2 = typeOnlyPairs ?r1 @ ys"
    using interleaved_grows [of ?r1 L ext rest] by blast
  from Cons.prems xs ys have "xs = []" "ys = []" by simp_all
  with xs ys have q1: "typeOnlyPairs ?r1 = typeOnlyPairs r"
    and q2: "typeOnlyPairs ?r2 = typeOnlyPairs ?r1" by simp_all
  have st: "?r1 = pass1_step L ext r t"
    by (rule interleaved_step_quiet [OF q1, THEN conjunct1])
  have se: "settled L ext ?r1 t"
    by (rule interleaved_step_quiet [OF q1, THEN conjunct2])
  have ih: "?r2 = foldl (pass1_step L ext) ?r1 rest"
    by (rule Cons.IH [OF q2, THEN conjunct1])
  have ihs: "\<forall>u \<in> set rest. settled L ext ?r2 u"
    by (rule Cons.IH [OF q2, THEN conjunct2])
  have "settled L ext ?r2 t"
    using settled_mono [OF se] interleaved_grows [of ?r1 L ext rest] by blast
  with ih ihs st show ?case by simp
qed

lemma pass2_nothing_to_do:
  "\<forall>t \<in> set ledger. settled L ext r t \<Longrightarrow> foldl (pass2_step L ext) r ledger = r"
  by (induction ledger) (auto simp: pass2_step_def settled_def)

lemma interleaved_two_pass:
  assumes "mismatchedAmount (reference_interleaved L ledger ext) = []"
  shows "reference_two_pass L ledger ext = reference_interleaved L ledger ext"
proof -
  let ?r = "foldl (interleaved_step L ext) ref_init ledger"
  from assms have q: "typeOnlyPairs ?r = typeOnlyPairs ref_init"
    by (simp add: reference_interleaved_def ref_buckets_def ref_init_def)
  have p1: "?r = foldl (pass1_step L ext) ref_init ledger"
    by (rule interleaved_quiet [OF q, THEN conjunct1])
  have se: "\<forall>t \<in> set ledger. settled L ext ?r t"
    by (rule interleaved_quiet [OF q, THEN conjunct2])
  from pass2_nothing_to_do [OF se] show ?thesis
    by (simp add: reference_two_pass_def reference_interleaved_def p1 [symmetric])
qed

text \<open>
  Claim C1, amended. The matcher goes through the ledger sequence once: for each ledger
  transaction it runs the exact scan and, when that finds nothing, at once the type-only
  scan, before it looks at the next ledger transaction. It is the interleaved algorithm on
  every input, and it is the two-pass algorithm on every input for which it makes no
  type-only pair.
\<close>

theorem matcher_interleaves_the_passes:
  "classify L dbTxs csvTxs = reference_interleaved L dbTxs csvTxs
   \<and> (mismatchedAmount (classify L dbTxs csvTxs) = []
        \<longrightarrow> classify L dbTxs csvTxs = reference_two_pass L dbTxs csvTxs)"
  using interleaved_two_pass [of L dbTxs csvTxs]
  by (simp add: classify_interleaved)

theorem matcher_interleaves_the_passes_witness:
  "mismatchedAmount (classify ascii_lib
      [ledger_tx 1 ''DEPOSIT'' f100, ledger_tx 2 ''WITHDRAWAL'' fm40]
      [ext_tx ''E1'' ''DEPOSIT'' f100, ext_tx ''E2'' ''FEE'' f50]) = []
   \<and> reference_two_pass ascii_lib
      [ledger_tx 1 ''DEPOSIT'' f100, ledger_tx 2 ''WITHDRAWAL'' fm40]
      [ext_tx ''E1'' ''DEPOSIT'' f100, ext_tx ''E2'' ''FEE'' f50]
     = \<lparr>matched = [(ledger_tx 1 ''DEPOSIT'' f100, ext_tx ''E1'' ''DEPOSIT'' f100)],
        mismatchedAmount = [],
        onlyInDB = [ledger_tx 2 ''WITHDRAWAL'' fm40],
        onlyInCSV = [ext_tx ''E2'' ''FEE'' f50]\<rparr>"
proof -
  have e: "classify ascii_lib
      [ledger_tx 1 ''DEPOSIT'' f100, ledger_tx 2 ''WITHDRAWAL'' fm40]
      [ext_tx ''E1'' ''DEPOSIT'' f100, ext_tx ''E2'' ''FEE'' f50]
     = \<lparr>matched = [(ledger_tx 1 ''DEPOSIT'' f100, ext_tx ''E1'' ''DEPOSIT'' f100)],
        mismatchedAmount = [],
        onlyInDB = [ledger_tx 2 ''WITHDRAWAL'' fm40],
        onlyInCSV = [ext_tx ''E2'' ''FEE'' f50]\<rparr>"
    by (simp add: matcher_eval ToUpper_eval float64_eval fixture_eval)
  have h: "mismatchedAmount (classify ascii_lib
      [ledger_tx 1 ''DEPOSIT'' f100, ledger_tx 2 ''WITHDRAWAL'' fm40]
      [ext_tx ''E1'' ''DEPOSIT'' f100, ext_tx ''E2'' ''FEE'' f50]) = []"
    by (simp add: e)
  have t: "classify ascii_lib
      [ledger_tx 1 ''DEPOSIT'' f100, ledger_tx 2 ''WITHDRAWAL'' fm40]
      [ext_tx ''E1'' ''DEPOSIT'' f100, ext_tx ''E2'' ''FEE'' f50]
     = reference_two_pass ascii_lib
      [ledger_tx 1 ''DEPOSIT'' f100, ledger_tx 2 ''WITHDRAWAL'' fm40]
      [ext_tx ''E1'' ''DEPOSIT'' f100, ext_tx ''E2'' ''FEE'' f50]"
    by (rule matcher_interleaves_the_passes [THEN conjunct2, THEN mp, OF h])
  show ?thesis by (simp add: t [symmetric] e)
qed

end
